theory Spec2Isabelle
  imports
    Main
    "HOL-Library.Char_ord"
    "HOL-Library.List_Lexorder"
    "HOL-Library.Option_ord"
    "HOL-Library.Product_Lexorder"
    "HOL-Library.Multiset"
begin

section \<open>pelican\_bibtex: formatted citation lists from a BibTeX file\<close>

text \<open>
  The plugin is one Python module, \<^verbatim>\<open>pelican_bibtex.py\<close>: the class \<^verbatim>\<open>MyStyle\<close>
  (three category formatters and three overridden hooks of pybtex's \<^verbatim>\<open>unsrt\<close> style) and
  the function \<^verbatim>\<open>add_publications\<close>.  The module builds its templates from the nodes of
  \<^verbatim>\<open>pybtex.style.template\<close> and renders them with pybtex's HTML backend; both are
  libraries the module imports, and their behaviour is written out below as far as the
  module uses it.  Two parts of the library are parameters of the model: the decoder that
  turns the LaTeX source of a field value into rich text, and the formatter of a person's
  name; both may raise.  Letter case is changed on ASCII letters only.
\<close>

subsection \<open>Errors\<close>

text \<open>
  Every exception that can leave a function of the module is a value.
  \<^verbatim>\<open>FieldIsMissing\<close> is raised by the template nodes \<^verbatim>\<open>field\<close> and \<^verbatim>\<open>names\<close>,
  \<^verbatim>\<open>UnicodeDecodeError\<close> by the decoding of a field value or of a name,
  \<^verbatim>\<open>ValueError\<close> and \<^verbatim>\<open>TypeError\<close> by \<^verbatim>\<open>int\<close> and by comparisons during sorting,
  \<^verbatim>\<open>KeyError\<close> by a dictionary lookup, \<^verbatim>\<open>NoFormatMethod\<close> stands for the failure of
  looking up the method \<^verbatim>\<open>format_\<close> followed by the entry type on the style.
\<close>

datatype error =
    FieldIsMissing string
  | ValueError
  | TypeError
  | KeyError string
  | NoFormatMethod string
  | UnicodeDecodeError

subsection \<open>Records\<close>

record entry =
  entry_type :: string
  entry_fields :: "string \<rightharpoonup> string"
  persons :: "string \<rightharpoonup> string list"

subsection \<open>Rich text and the HTML backend\<close>

datatype richtext =
    Str string
  | Symbol string
  | Tag string "richtext list"
  | HRef string "richtext list"
  | Protected "richtext list"

type_synonym rich = "richtext list"

fun text_len :: "richtext \<Rightarrow> nat" where
  "text_len (Str s) = length s"
| "text_len (Symbol n) = 1"
| "text_len (Tag n ps) = sum_list (map text_len ps)"
| "text_len (HRef u ps) = sum_list (map text_len ps)"
| "text_len (Protected ps) = sum_list (map text_len ps)"

definition nonempty :: "rich \<Rightarrow> bool" where
  "nonempty t = (0 < sum_list (map text_len t))"

fun plain :: "richtext \<Rightarrow> string" where
  "plain (Str s) = s"
| "plain (Symbol n) = ''<'' @ n @ ''>''"
| "plain (Tag n ps) = concat (map plain ps)"
| "plain (HRef u ps) = concat (map plain ps)"
| "plain (Protected ps) = concat (map plain ps)"

definition plain_text :: "rich \<Rightarrow> string" where
  "plain_text t = concat (map plain t)"

definition escape_char :: "char \<Rightarrow> string" where
  "escape_char c =
     (if c = CHR ''&'' then ''&amp;''
      else if c = CHR ''<'' then ''&lt;''
      else if c = CHR ''>'' then ''&gt;''
      else [c])"

definition escape :: "string \<Rightarrow> string" where
  "escape s = concat (map escape_char s)"

definition html_symbol :: "string \<Rightarrow> string" where
  "html_symbol n =
     (if n = ''ndash'' then ''&ndash;''
      else if n = ''newblock'' then [CHR 0x0A]
      else if n = ''nbsp'' then ''&nbsp;''
      else n)"

fun render :: "richtext \<Rightarrow> string" where
  "render (Str s) = escape s"
| "render (Symbol n) = html_symbol n"
| "render (Tag n ps) =
     (let body = concat (map render ps)
      in if body = [] then [] else ''<'' @ n @ ''>'' @ body @ ''</'' @ n @ ''>'')"
| "render (HRef u ps) =
     (let body = concat (map render ps)
      in if body = [] then []
         else ''<a href='' @ [CHR 0x22] @ u @ [CHR 0x22] @ ''>'' @ body @ ''</a>'')"
| "render (Protected ps) =
     ''<span class='' @ [CHR 0x22] @ ''bibtex-protected'' @ [CHR 0x22] @ ''>''
       @ concat (map render ps) @ ''</span>''"

definition render_html :: "rich \<Rightarrow> string" where
  "render_html t = concat (map render t)"

text \<open>\<^verbatim>\<open>Text.add_period\<close>: a period is appended to a non-empty text that does not end in
  one of \<^verbatim>\<open>. ? !\<close>.\<close>

definition add_period :: "rich \<Rightarrow> rich" where
  "add_period t =
     (if nonempty t \<and> plain_text t \<noteq> [] \<and> last (plain_text t) \<notin> set ''.?!''
      then t @ [Str ''.''] else t)"

subsection \<open>Decoding of field values and names\<close>

text \<open>
  The \<^verbatim>\<open>field\<close> node reads \<^verbatim>\<open>rich_fields\<close>: the value of the field decoded from its LaTeX
  source into rich text (braces become protected text, markup becomes tags and symbols).
  The decoding raises \<^verbatim>\<open>UnicodeDecodeError\<close> on a value it cannot read, such as the lone
  backslash.  The \<^verbatim>\<open>names\<close> node formats each person with the style's name formatter,
  which decodes the parts of the name in the same way.  Both are taken as parameters;
  \<open>None\<close> stands for the raised error.
\<close>

record decoder =
  from_latex :: "string \<Rightarrow> rich option"
  format_name :: "string \<Rightarrow> rich option"

subsection \<open>The template nodes of \<^verbatim>\<open>pybtex.style.template\<close>\<close>

text \<open>
  \<^verbatim>\<open>Text(sep).join(parts)\<close>, and the \<^verbatim>\<open>join\<close> node: empty parts are dropped, two parts
  are joined by \<^verbatim>\<open>sep2\<close>, and the last of three or more by \<^verbatim>\<open>last_sep\<close>.
\<close>

fun join_text :: "rich \<Rightarrow> rich list \<Rightarrow> rich" where
  "join_text sep [] = []"
| "join_text sep [p] = p"
| "join_text sep (p # q # ps) = p @ sep @ join_text sep (q # ps)"

definition join_parts :: "rich \<Rightarrow> rich \<Rightarrow> rich \<Rightarrow> rich list \<Rightarrow> rich" where
  "join_parts sep sep2 last_sep children =
     (let parts = filter nonempty children
      in if length parts \<le> 1 then concat parts
         else if length parts = 2 then join_text sep2 parts
         else join_text sep (butlast parts) @ last_sep @ last parts)"

text \<open>
  The \<^verbatim>\<open>together\<close> node: the parts that are not empty, the first tied to the second
  by a non-breaking space when it is shorter than three characters, and so the last to
  the one before it.
\<close>

definition tie_or_space :: "rich \<Rightarrow> rich" where
  "tie_or_space word = (if sum_list (map text_len word) < 3 then [Symbol ''nbsp''] else [Str '' ''])"

definition together_parts :: "rich list \<Rightarrow> rich" where
  "together_parts children =
     (let parts = filter nonempty children
      in if parts = [] then []
         else if length parts \<le> 2 then join_text (tie_or_space (hd parts)) parts
         else hd parts @ tie_or_space (hd parts) @ join_text [Str '' ''] (butlast (tl parts))
                @ tie_or_space (last parts) @ last parts)"

text \<open>
  The functions passed as \<^verbatim>\<open>apply_func\<close>.  \<^verbatim>\<open>dashify\<close> (through \<^verbatim>\<open>pages\<close>, imported
  from \<^verbatim>\<open>unsrt\<close>) splits the text at every run of hyphens and joins the pieces with the
  symbol \<^verbatim>\<open>ndash\<close>; a tag is split with its text, protected text and symbols are not.
  The lambda of \<^verbatim>\<open>format_title\<close> is \<^verbatim>\<open>Tag('b', text.capitalize())\<close>, where
  \<^verbatim>\<open>capitalize\<close> lowers the text and raises its first character, leaving protected text
  as it is.  \<^verbatim>\<open>unsrt\<close> lowers the edition.
\<close>

datatype apply_func = Dashify | BoldCapitalize | Lower

fun split_dashes_aux :: "string \<Rightarrow> bool \<Rightarrow> string \<Rightarrow> string list" where
  "split_dashes_aux cur prev [] = [rev cur]"
| "split_dashes_aux cur prev (c # cs) =
     (if c = CHR ''-''
      then (if prev then split_dashes_aux cur True cs
            else rev cur # split_dashes_aux [] True cs)
      else split_dashes_aux (c # cur) False cs)"

definition split_dashes :: "string \<Rightarrow> string list" where
  "split_dashes s = split_dashes_aux [] False s"

definition glue :: "rich list \<Rightarrow> rich list \<Rightarrow> rich list" where
  "glue xs ys =
     (if xs = [] then ys else if ys = [] then xs
      else butlast xs @ [last xs @ hd ys] @ tl ys)"

fun split_rt :: "richtext \<Rightarrow> rich list"
  and split_rich :: "rich \<Rightarrow> rich list" where
  "split_rt (Str s) = map (\<lambda>x. [Str x]) (split_dashes s)"
| "split_rt (Symbol n) = [[Symbol n]]"
| "split_rt (Tag n ps) = map (\<lambda>q. [Tag n q]) (split_rich ps)"
| "split_rt (HRef u ps) = map (\<lambda>q. [HRef u q]) (split_rich ps)"
| "split_rt (Protected ps) = [[Protected ps]]"
| "split_rich [] = [[]]"
| "split_rich (p # ps) = glue (split_rt p) (split_rich ps)"

definition dashify :: "rich \<Rightarrow> rich" where
  "dashify t = join_text [Symbol ''ndash''] (split_rich t)"

definition upper_char :: "char \<Rightarrow> char" where
  "upper_char c =
     (if CHR ''a'' \<le> c \<and> c \<le> CHR ''z'' then char_of (of_char c - (32 :: nat)) else c)"

definition lower_char :: "char \<Rightarrow> char" where
  "lower_char c =
     (if CHR ''A'' \<le> c \<and> c \<le> CHR ''Z'' then char_of (of_char c + (32 :: nat)) else c)"

fun lower_rt :: "richtext \<Rightarrow> richtext" where
  "lower_rt (Str s) = Str (map lower_char s)"
| "lower_rt (Symbol n) = Symbol n"
| "lower_rt (Tag n ps) = Tag n (map lower_rt ps)"
| "lower_rt (HRef u ps) = HRef u (map lower_rt ps)"
| "lower_rt (Protected ps) = Protected ps"

fun capfirst_rt :: "richtext \<Rightarrow> richtext"
  and capfirst :: "rich \<Rightarrow> rich" where
  "capfirst_rt (Str s) = Str (case s of [] \<Rightarrow> [] | c # cs \<Rightarrow> upper_char c # cs)"
| "capfirst_rt (Symbol n) = Symbol n"
| "capfirst_rt (Tag n ps) = Tag n (capfirst ps)"
| "capfirst_rt (HRef u ps) = HRef u (capfirst ps)"
| "capfirst_rt (Protected ps) = Protected ps"
| "capfirst [] = []"
| "capfirst (p # ps) = (if text_len p = 0 then p # capfirst ps else capfirst_rt p # ps)"

definition capitalize :: "rich \<Rightarrow> rich" where
  "capitalize t = capfirst (map lower_rt t)"

fun apply_to :: "apply_func option \<Rightarrow> rich \<Rightarrow> rich" where
  "apply_to None t = t"
| "apply_to (Some Dashify) t = dashify t"
| "apply_to (Some BoldCapitalize) t = [Tag ''b'' (capitalize t)]"
| "apply_to (Some Lower) t = map lower_rt t"

datatype template =
    Lit string
  | Field string "apply_func option"
  | Names string
  | Optional "template list"
  | FirstOf "template list"
  | Join rich "template list"
  | Together "template list"
  | Sentence "template list"
  | CapSentence "template list"
  | TagT string "template list"
  | HRefT "template list"

text \<open>
  \<^verbatim>\<open>format_data\<close>.  \<^verbatim>\<open>field\<close> and \<^verbatim>\<open>names\<close> raise \<^verbatim>\<open>FieldIsMissing\<close> when the entry
  has no such field or role, and let the decoder's error through when the value cannot
  be decoded; only \<^verbatim>\<open>optional\<close> catches \<^verbatim>\<open>FieldIsMissing\<close>, giving the empty text, and
  nothing catches the decoder's error.  \<^verbatim>\<open>first_of\<close> formats its children one by one
  and returns the first that is not empty.  \<^verbatim>\<open>sentence\<close> joins with a comma and a space
  and adds a period (\<open>CapSentence\<close> is \<^verbatim>\<open>sentence(capfirst=True)\<close>); \<^verbatim>\<open>href\<close> takes its
  first child as the target.
\<close>

fun names_list :: "(string \<Rightarrow> rich option) \<Rightarrow> string list \<Rightarrow> rich list option" where
  "names_list f [] = Some []"
| "names_list f (p # ps) =
     (case f p of
        None \<Rightarrow> None
      | Some r \<Rightarrow> (case names_list f ps of None \<Rightarrow> None | Some rs \<Rightarrow> Some (r # rs)))"

fun format_data :: "decoder \<Rightarrow> template \<Rightarrow> entry \<Rightarrow> error + rich"
  and format_list :: "decoder \<Rightarrow> template list \<Rightarrow> entry \<Rightarrow> error + rich list"
  and first_nonempty :: "decoder \<Rightarrow> template list \<Rightarrow> entry \<Rightarrow> error + rich" where
  "format_data d (Lit s) e = Inr [Str s]"
| "format_data d (Field n f) e =
     (case entry_fields e n of
        None \<Rightarrow> Inl (FieldIsMissing n)
      | Some v \<Rightarrow>
          (case from_latex d v of
             None \<Rightarrow> Inl UnicodeDecodeError
           | Some t \<Rightarrow> Inr (apply_to f t)))"
| "format_data d (Names role) e =
     (case persons e role of
        None \<Rightarrow> Inl (FieldIsMissing role)
      | Some ps \<Rightarrow>
          (case names_list (format_name d) ps of
             None \<Rightarrow> Inl UnicodeDecodeError
           | Some rs \<Rightarrow> Inr (join_parts [Str '', ''] [Str '' and ''] [Str '', and ''] rs)))"
| "format_data d (Optional ts) e =
     (case format_list d ts e of
        Inl (FieldIsMissing n) \<Rightarrow> Inr []
      | Inl x \<Rightarrow> Inl x
      | Inr rs \<Rightarrow> Inr (concat rs))"
| "format_data d (FirstOf ts) e = first_nonempty d ts e"
| "format_data d (Join sep ts) e =
     (case format_list d ts e of
        Inl x \<Rightarrow> Inl x
      | Inr rs \<Rightarrow> Inr (join_parts sep sep sep rs))"
| "format_data d (Together ts) e =
     (case format_list d ts e of
        Inl x \<Rightarrow> Inl x
      | Inr rs \<Rightarrow> Inr (together_parts rs))"
| "format_data d (Sentence ts) e =
     (case format_list d ts e of
        Inl x \<Rightarrow> Inl x
      | Inr rs \<Rightarrow> Inr (add_period (join_parts [Str '', ''] [Str '', ''] [Str '', ''] rs)))"
| "format_data d (CapSentence ts) e =
     (case format_list d ts e of
        Inl x \<Rightarrow> Inl x
      | Inr rs \<Rightarrow>
          Inr (add_period (capfirst (join_parts [Str '', ''] [Str '', ''] [Str '', ''] rs))))"
| "format_data d (TagT n ts) e =
     (case format_list d ts e of
        Inl x \<Rightarrow> Inl x
      | Inr rs \<Rightarrow> Inr [Tag n (concat rs)])"
| "format_data d (HRefT ts) e =
     (case format_list d ts e of
        Inl x \<Rightarrow> Inl x
      | Inr [] \<Rightarrow> Inl TypeError
      | Inr (u # rs) \<Rightarrow> Inr [HRef (plain_text u) (concat rs)])"
| "format_list d [] e = Inr []"
| "format_list d (t # ts) e =
     (case format_data d t e of
        Inl x \<Rightarrow> Inl x
      | Inr r \<Rightarrow> (case format_list d ts e of Inl x \<Rightarrow> Inl x | Inr rs \<Rightarrow> Inr (r # rs)))"
| "first_nonempty d [] e = Inr []"
| "first_nonempty d (t # ts) e =
     (case format_data d t e of
        Inl x \<Rightarrow> Inl x
      | Inr r \<Rightarrow> if nonempty r then Inr r else first_nonempty d ts e)"

definition words :: "template list \<Rightarrow> template" where
  "words ts = Join [Str '' ''] ts"

definition toplevel :: "template list \<Rightarrow> template" where
  "toplevel ts = Join [Symbol ''newblock''] ts"

definition optional_field :: "string \<Rightarrow> template" where
  "optional_field n = Optional [Field n None]"

subsection \<open>The style \<^verbatim>\<open>unsrt\<close>, which \<^verbatim>\<open>MyStyle\<close> extends\<close>

text \<open>
  \<^verbatim>\<open>pages\<close> and \<^verbatim>\<open>date\<close> are imported by the module; the methods below are inherited.
  Where an inherited method calls \<^verbatim>\<open>self.format_title\<close>, \<^verbatim>\<open>self.format_url\<close> or
  \<^verbatim>\<open>self.format_doi\<close>, it reaches the module's override, given first.
\<close>

definition pages :: template where
  "pages = Field ''pages'' (Some Dashify)"

definition date :: template where
  "date = words [optional_field ''month'', Field ''year'' None]"

definition format_names :: "string \<Rightarrow> bool \<Rightarrow> template" where
  "format_names role as_sentence =
     (if as_sentence then Sentence [Names role] else Names role)"

definition format_eprint :: template where
  "format_eprint =
     HRefT [Join [Str []] [Lit ''https://arxiv.org/abs/'', Field ''eprint'' None],
            Join [Str []] [Lit ''arXiv:'', Field ''eprint'' None]]"

definition format_pubmed :: template where
  "format_pubmed =
     HRefT [Join [Str []] [Lit ''https://www.ncbi.nlm.nih.gov/pubmed/'', Field ''pubmed'' None],
            Join [Str []] [Lit ''PMID:'', Field ''pubmed'' None]]"

definition format_isbn :: template where
  "format_isbn = Join [Str '' ''] [Lit ''ISBN'', Field ''isbn'' None]"

paragraph \<open>The overrides of \<^verbatim>\<open>MyStyle\<close>\<close>

definition format_doi :: "template list" where
  "format_doi = []"

definition format_title :: "string \<Rightarrow> bool \<Rightarrow> template" where
  "format_title which_field as_sentence =
     (let formatted_title = Field which_field (Some BoldCapitalize)
      in if as_sentence then Sentence [formatted_title] else formatted_title)"

definition format_url :: "template list" where
  "format_url =
     [Lit ''['', HRefT [Field ''url'' None, Join [Str '' ''] [Lit ''URL'']], Lit '']'']"

paragraph \<open>Inherited methods\<close>

definition format_web_refs :: template where
  "format_web_refs =
     Sentence [Optional format_url, Optional [format_eprint], Optional [format_pubmed],
               Optional format_doi]"

definition format_editor :: "entry \<Rightarrow> bool \<Rightarrow> template" where
  "format_editor e as_sentence =
     (let editors = format_names ''editor'' False
      in case persons e ''editor'' of
           None \<Rightarrow> editors
         | Some ps \<Rightarrow>
             let word = (if 1 < length ps then ''editors'' else ''editor'');
                 result = Join [Str '', ''] [editors, Lit word]
             in if as_sentence then Sentence [result] else result)"

definition format_author_or_editor :: "entry \<Rightarrow> template" where
  "format_author_or_editor e =
     FirstOf [Optional [format_names ''author'' True], format_editor e True]"

definition format_volume_and_series :: "bool \<Rightarrow> template" where
  "format_volume_and_series as_sentence =
     (let volume_and_series =
            Optional [words [
              Together [Lit (if as_sentence then ''Volume'' else ''volume''), Field ''volume'' None],
              Optional [words [Lit ''of'', Field ''series'' None]]]];
          number_and_series =
            Optional [words [
              Join [Symbol ''nbsp'']
                [Lit (if as_sentence then ''Number'' else ''number''), Field ''number'' None],
              Optional [words [Lit ''in'', Field ''series'' None]]]];
          series = optional_field ''series'';
          result = FirstOf [volume_and_series, number_and_series, series]
      in if as_sentence then CapSentence [result] else result)"

definition format_chapter_and_pages :: template where
  "format_chapter_and_pages =
     Join [Str '', ''] [
       Optional [Together [Lit ''chapter'', Field ''chapter'' None]],
       Optional [Together [Lit ''pages'', pages]]]"

definition format_edition :: template where
  "format_edition = Optional [words [Field ''edition'' (Some Lower), Lit ''edition'']]"

definition format_btitle :: "string \<Rightarrow> bool \<Rightarrow> template" where
  "format_btitle which_field as_sentence =
     (let formatted_title = TagT ''em'' [Field which_field None]
      in if as_sentence then Sentence [formatted_title] else formatted_title)"

definition format_address_organization_publisher_date :: "bool \<Rightarrow> template" where
  "format_address_organization_publisher_date include_organization =
     (let organization = (if include_organization then [optional_field ''organization''] else [])
      in FirstOf [
           Optional [
             Join [Str '' ''] [
               Sentence [Field ''address'' None, date],
               Sentence (organization @ [optional_field ''publisher''])]],
           Sentence (organization @ [optional_field ''publisher'', date])])"

definition format_book :: "entry \<Rightarrow> template" where
  "format_book e =
     toplevel [
       format_author_or_editor e,
       format_btitle ''title'' True,
       format_volume_and_series True,
       Sentence [Field ''publisher'' None, optional_field ''address'', format_edition, date],
       Optional [Sentence [format_isbn]],
       Sentence [optional_field ''note''],
       format_web_refs]"

definition format_booklet :: "entry \<Rightarrow> template" where
  "format_booklet e =
     toplevel [
       format_names ''author'' True,
       format_title ''title'' True,
       Sentence [optional_field ''howpublished'', optional_field ''address'', date,
                 optional_field ''note''],
       format_web_refs]"

definition format_inbook :: "entry \<Rightarrow> template" where
  "format_inbook e =
     toplevel [
       format_author_or_editor e,
       Sentence [format_btitle ''title'' False, format_chapter_and_pages],
       format_volume_and_series True,
       Sentence [Field ''publisher'' None, optional_field ''address'',
                 Optional [words [Field ''edition'' None, Lit ''edition'']],
                 date, optional_field ''note''],
       format_web_refs]"

definition format_incollection :: "entry \<Rightarrow> template" where
  "format_incollection e =
     toplevel [
       Sentence [format_names ''author'' True],
       format_title ''title'' True,
       words [
         Lit ''In'',
         Sentence [
           Optional [format_editor e False],
           format_btitle ''booktitle'' False,
           format_volume_and_series False,
           format_chapter_and_pages]],
       Sentence [optional_field ''publisher'', optional_field ''address'', format_edition, date],
       format_web_refs]"

definition format_inproceedings :: "entry \<Rightarrow> template" where
  "format_inproceedings e =
     toplevel [
       Sentence [format_names ''author'' True],
       format_title ''title'' True,
       words [
         Lit ''In'',
         Sentence [
           Optional [format_editor e False],
           format_btitle ''booktitle'' False,
           format_volume_and_series False,
           Optional [pages]],
         format_address_organization_publisher_date True],
       Sentence [optional_field ''note''],
       format_web_refs]"

definition format_manual :: "entry \<Rightarrow> template" where
  "format_manual e =
     toplevel [
       Optional [Sentence [format_names ''author'' True]],
       format_btitle ''title'' True,
       Sentence [optional_field ''organization'', optional_field ''address'', format_edition,
                 Optional [date]],
       Sentence [optional_field ''note''],
       format_web_refs]"

definition format_mastersthesis :: "entry \<Rightarrow> template" where
  "format_mastersthesis e =
     toplevel [
       Sentence [format_names ''author'' True],
       format_title ''title'' True,
       Sentence [Lit (''Master'' @ [CHR 0x27] @ ''s thesis''), Field ''school'' None,
                 optional_field ''address'', date],
       Sentence [optional_field ''note''],
       format_web_refs]"

definition format_misc :: "entry \<Rightarrow> template" where
  "format_misc e =
     toplevel [
       Optional [Sentence [format_names ''author'' True]],
       Optional [format_title ''title'' True],
       Sentence [Optional [Field ''howpublished'' None], Optional [date]],
       Sentence [optional_field ''note''],
       format_web_refs]"

definition format_phdthesis :: "entry \<Rightarrow> template" where
  "format_phdthesis e =
     toplevel [
       Sentence [format_names ''author'' True],
       format_btitle ''title'' True,
       Sentence [FirstOf [optional_field ''type'', Lit ''PhD thesis''], Field ''school'' None,
                 optional_field ''address'', date],
       Sentence [optional_field ''note''],
       format_web_refs]"

definition format_proceedings :: "entry \<Rightarrow> template" where
  "format_proceedings e =
     (let main_part =
            (if persons e ''editor'' \<noteq> None then
               [format_editor e True,
                Sentence [format_btitle ''title'' False, format_volume_and_series False,
                          format_address_organization_publisher_date True]]
             else
               [Optional [Sentence [Field ''organization'' None]],
                Sentence [format_btitle ''title'' False, format_volume_and_series False,
                          format_address_organization_publisher_date False]])
      in toplevel (main_part @ [Sentence [optional_field ''note''], format_web_refs]))"

subsection \<open>The formatters of \<^verbatim>\<open>MyStyle\<close>\<close>

definition volume_and_pages :: template where
  "volume_and_pages =
     FirstOf [
       Optional [
         Join [Str []] [
           Field ''volume'' None,
           Optional [Lit ''('', Field ''number'' None, Lit '')''],
           Lit '':'', pages]],
       Optional [words [Lit ''pages'', pages]]]"

definition article_template :: template where
  "article_template =
     toplevel [
       format_title ''title'' True,
       format_names ''author'' True,
       Sentence [
         TagT ''em'' [Field ''journal'' None],
         Optional [volume_and_pages],
         date],
       Sentence [optional_field ''note''],
       format_web_refs]"

definition format_article :: "decoder \<Rightarrow> entry \<Rightarrow> error + rich" where
  "format_article d e = format_data d article_template e"

definition unpublished_template :: template where
  "unpublished_template =
     toplevel [
       format_title ''title'' True,
       Sentence [format_names ''author'' True],
       Sentence [
         words [
           FirstOf [optional_field ''type'', Lit ''Unpublished''],
           optional_field ''number''],
         date],
       Sentence [optional_field ''note''],
       format_web_refs]"

definition format_unpublished :: "decoder \<Rightarrow> entry \<Rightarrow> error + rich" where
  "format_unpublished d e = format_data d unpublished_template e"

definition techreport_template :: template where
  "techreport_template =
     toplevel [
       format_title ''title'' True,
       Sentence [format_names ''author'' True],
       Sentence [
         words [
           FirstOf [optional_field ''type'', Lit ''Technical Report''],
           optional_field ''number''],
         Field ''institution'' None,
         optional_field ''address'',
         date],
       Sentence [optional_field ''note''],
       format_web_refs]"

definition format_techreport :: "decoder \<Rightarrow> entry \<Rightarrow> error + rich" where
  "format_techreport d e = format_data d techreport_template e"

text \<open>
  \<^verbatim>\<open>format_entries\<close> of the base style calls, for each entry, the method named
  \<^verbatim>\<open>format_\<close> plus the entry type.  The three methods above are the module's; ten more
  types have an inherited method, whose template is given by \<open>inherited\<close>.  For any other
  type the style has no formatter and the call raises.
\<close>

definition inherited :: "entry \<Rightarrow> template option" where
  "inherited e =
     (let t = entry_type e in
      if t = ''book'' then Some (format_book e)
      else if t = ''booklet'' then Some (format_booklet e)
      else if t = ''inbook'' then Some (format_inbook e)
      else if t = ''incollection'' then Some (format_incollection e)
      else if t = ''inproceedings'' then Some (format_inproceedings e)
      else if t = ''manual'' then Some (format_manual e)
      else if t = ''mastersthesis'' then Some (format_mastersthesis e)
      else if t = ''misc'' then Some (format_misc e)
      else if t = ''phdthesis'' then Some (format_phdthesis e)
      else if t = ''proceedings'' then Some (format_proceedings e)
      else None)"

definition format_entry :: "decoder \<Rightarrow> entry \<Rightarrow> error + rich" where
  "format_entry d e =
     (if entry_type e = ''article'' then format_article d e
      else if entry_type e = ''unpublished'' then format_unpublished d e
      else if entry_type e = ''techreport'' then format_techreport d e
      else (case inherited e of
              None \<Rightarrow> Inl (NoFormatMethod (entry_type e))
            | Some t \<Rightarrow> format_data d t e))"

subsection \<open>Python's \<^verbatim>\<open>int\<close> on a string\<close>

text \<open>
  Surrounding whitespace is stripped; then an optional sign and decimal digits, where
  single underscores may stand between digits.  Anything else is a \<^verbatim>\<open>ValueError\<close>
  (\<open>None\<close> here).  This is \<^verbatim>\<open>int\<close> on ASCII strings, as Python 3 reads them; the
  whitespace and digits beyond ASCII that Python 3 also accepts, and its limit on the
  number of digits, are left out.
\<close>

definition is_space :: "char \<Rightarrow> bool" where
  "is_space c = (c \<in> set [CHR '' '', CHR 0x09, CHR 0x0A, CHR 0x0B, CHR 0x0C, CHR 0x0D])"

definition is_digit :: "char \<Rightarrow> bool" where
  "is_digit c = (c \<in> set ''0123456789'')"

definition digit_val :: "char \<Rightarrow> nat" where
  "digit_val c = of_char c - 48"

definition strip :: "string \<Rightarrow> string" where
  "strip s = rev (dropWhile is_space (rev (dropWhile is_space s)))"

fun parse_digits :: "nat \<Rightarrow> string \<Rightarrow> nat option" where
  "parse_digits acc [] = Some acc"
| "parse_digits acc [c] = (if is_digit c then Some (10 * acc + digit_val c) else None)"
| "parse_digits acc (c # d # cs) =
     (if is_digit c then parse_digits (10 * acc + digit_val c) (d # cs)
      else if c = CHR ''_'' \<and> is_digit d then parse_digits acc (d # cs)
      else None)"

definition parse_unsigned :: "string \<Rightarrow> nat option" where
  "parse_unsigned s =
     (case s of
        [] \<Rightarrow> None
      | c # cs \<Rightarrow> if is_digit c then parse_digits (digit_val c) cs else None)"

definition py_int :: "string \<Rightarrow> int option" where
  "py_int s =
     (case strip s of
        [] \<Rightarrow> None
      | c # cs \<Rightarrow>
          if c = CHR ''-'' then map_option (\<lambda>n. - int n) (parse_unsigned cs)
          else if c = CHR ''+'' then map_option int (parse_unsigned cs)
          else map_option int (parse_unsigned (c # cs)))"

subsection \<open>\<^verbatim>\<open>add_publications\<close>\<close>

text \<open>
  The module runs on Python 2 and on Python 3 (it imports \<^verbatim>\<open>StringIO\<close> from either
  place).  The two differ where a sort key without a year meets one with a year: Python 2
  orders \<^verbatim>\<open>None\<close> below every integer, Python 3 raises \<^verbatim>\<open>TypeError\<close> on the
  comparison.
\<close>

datatype py_version = Py2 | Py3

text \<open>The outcome of \<^verbatim>\<open>Parser().parse_file\<close>: a \<^verbatim>\<open>PybtexError\<close> with its text, or the
  entries in file order, each under its key.\<close>

datatype parse_outcome = PybtexError string | Parsed "(string \<times> entry) list"

type_synonym sort_key = "int option \<times> string"

type_synonym entry_res = "string \<times> string \<times> string \<times> sort_key"

datatype log_level = DEBUG | INFO | WARNING | ERROR | CRITICAL

record env =
  version :: py_version
  parse_file :: "string \<Rightarrow> parse_outcome"
  write_stream :: "string \<Rightarrow> entry \<Rightarrow> string"
  decoding :: decoder

text \<open>The generator (its settings and its context, \<open>ctx\<close>), together with what the
  run does outside it: the log records emitted and the files handed to the parser.\<close>

record generator =
  settings :: "string \<rightharpoonup> string"
  ctx :: "string \<rightharpoonup> entry_res list"

record world = generator +
  log :: "(log_level \<times> string) list"
  files_read :: "string list"

datatype result = Returned world | Raised error world

record buckets =
  publications :: "entry_res list"
  reports :: "entry_res list"
  unpublished :: "entry_res list"

definition itemgetter_last :: "entry_res \<Rightarrow> sort_key" where
  "itemgetter_last r = snd (snd (snd r))"

text \<open>
  \<^verbatim>\<open>sorted(xs, key=itemgetter(-1), reverse=True)\<close>.  The sort is stable, also when
  reversed.  Keys are compared as tuples: the years first, the journals when the years
  are equal.  On Python 3 a list that holds a key with a year and a key without one
  cannot be sorted: whatever the order of comparisons, one of them is between the two
  kinds and raises.
\<close>

definition mixed_years :: "entry_res list \<Rightarrow> bool" where
  "mixed_years xs =
     ((\<exists>a \<in> set xs. fst (itemgetter_last a) = None) \<and>
      (\<exists>b \<in> set xs. fst (itemgetter_last b) \<noteq> None))"

definition sorted_py :: "py_version \<Rightarrow> entry_res list \<Rightarrow> error + entry_res list" where
  "sorted_py v xs =
     (if v = Py3 \<and> mixed_years xs then Inl TypeError
      else Inr (rev (sort_key itemgetter_last (rev xs))))"

text \<open>
  The year of the sort key: \<^verbatim>\<open>int(None)\<close> raises \<^verbatim>\<open>TypeError\<close>, which is caught;
  \<^verbatim>\<open>int\<close> of a string that is no integer raises \<^verbatim>\<open>ValueError\<close>, which is not.
\<close>

definition year_of :: "entry \<Rightarrow> error + int option" where
  "year_of entry =
     (case entry_fields entry ''year'' of
        None \<Rightarrow> Inr None
      | Some s \<Rightarrow> (case py_int s of None \<Rightarrow> Inl ValueError | Some n \<Rightarrow> Inr (Some n)))"

text \<open>One turn of the loop, up to the tuple \<^verbatim>\<open>entry_res\<close>.\<close>

definition entry_result ::
  "env \<Rightarrow> (string \<times> entry) list \<Rightarrow> string \<times> entry \<Rightarrow> error + entry \<times> entry_res" where
  "entry_result env entries ke =
     (case format_entry (decoding env) (snd ke) of
        Inl x \<Rightarrow> Inl x
      | Inr txt \<Rightarrow>
          let key = fst ke in
          (case map_of entries key of
             None \<Rightarrow> Inl (KeyError key)
           | Some entry \<Rightarrow>
               (case year_of entry of
                  Inl x \<Rightarrow> Inl x
                | Inr year \<Rightarrow>
                    let journal = (case entry_fields entry ''journal'' of
                                     None \<Rightarrow> [] | Some j \<Rightarrow> j);
                        sort_key = (year, journal);
                        bib = write_stream env key entry
                    in Inr (entry, (key, render_html txt, bib, sort_key)))))"

definition place :: "entry \<Rightarrow> entry_res \<Rightarrow> buckets \<Rightarrow> buckets" where
  "place entry entry_res b =
     (if entry_type entry = ''article''
      then b\<lparr>publications := publications b @ [entry_res]\<rparr>
      else if entry_type entry = ''unpublished''
      then b\<lparr>unpublished := unpublished b @ [entry_res]\<rparr>
      else b\<lparr>reports := reports b @ [entry_res]\<rparr>)"

fun loop ::
  "env \<Rightarrow> (string \<times> entry) list \<Rightarrow> (string \<times> entry) list \<Rightarrow> buckets \<Rightarrow> error + buckets" where
  "loop env entries [] b = Inr b"
| "loop env entries (ke # rest) b =
     (case entry_result env entries ke of
        Inl x \<Rightarrow> Inl x
      | Inr (entry, entry_res) \<Rightarrow> loop env entries rest (place entry entry_res b))"

definition empty_buckets :: buckets where
  "empty_buckets = \<lparr>publications = [], reports = [], unpublished = []\<rparr>"

definition warn_message :: "string \<Rightarrow> string \<Rightarrow> string" where
  "warn_message refs_file e =
     [CHR 0x60] @ ''pelican_bibtex'' @ [CHR 0x60] @ '' failed to parse file '' @ refs_file
       @ '': '' @ e"

definition set_ctx :: "string \<Rightarrow> entry_res list \<Rightarrow> world \<Rightarrow> world" where
  "set_ctx k v g = g\<lparr>ctx := (ctx g)(k \<mapsto> v)\<rparr>"

definition add_publications :: "env \<Rightarrow> world \<Rightarrow> result" where
  "add_publications env g =
     (case settings g ''PUBLICATIONS_SRC'' of
        None \<Rightarrow> Returned g
      | Some refs_file \<Rightarrow>
          let g1 = g\<lparr>files_read := files_read g @ [refs_file]\<rparr> in
          (case parse_file env refs_file of
             PybtexError e \<Rightarrow>
               Returned (g1\<lparr>log := log g1 @ [(WARNING, warn_message refs_file e)]\<rparr>)
           | Parsed entries \<Rightarrow>
               (case loop env entries entries empty_buckets of
                  Inl x \<Rightarrow> Raised x g1
                | Inr b \<Rightarrow>
                    (case sorted_py (version env) (publications b) of
                       Inl x \<Rightarrow> Raised x g1
                     | Inr ps \<Rightarrow>
                         let g2 = set_ctx ''publications'' ps g1 in
                         (case sorted_py (version env) (reports b) of
                            Inl x \<Rightarrow> Raised x g2
                          | Inr rs \<Rightarrow>
                              let g3 = set_ctx ''reports'' rs g2 in
                              (case sorted_py (version env) (unpublished b) of
                                 Inl x \<Rightarrow> Raised x g3
                               | Inr us \<Rightarrow> Returned (set_ctx ''unpublished'' us g3)))))))"

subsection \<open>Fields a template reads\<close>

text \<open>Whether a template has a \<^verbatim>\<open>field\<close> node for the given field name.\<close>

fun mentions :: "string \<Rightarrow> template \<Rightarrow> bool"
  and mentions_list :: "string \<Rightarrow> template list \<Rightarrow> bool" where
  "mentions n (Lit s) = False"
| "mentions n (Field m f) = (m = n)"
| "mentions n (Names role) = False"
| "mentions n (Optional ts) = mentions_list n ts"
| "mentions n (FirstOf ts) = mentions_list n ts"
| "mentions n (Join sep ts) = mentions_list n ts"
| "mentions n (Together ts) = mentions_list n ts"
| "mentions n (Sentence ts) = mentions_list n ts"
| "mentions n (CapSentence ts) = mentions_list n ts"
| "mentions n (TagT m ts) = mentions_list n ts"
| "mentions n (HRefT ts) = mentions_list n ts"
| "mentions_list n [] = False"
| "mentions_list n (t # ts) = (mentions n t \<or> mentions_list n ts)"

text \<open>The HTML of a formatting result (empty when formatting raised).\<close>

definition rendered :: "error + rich \<Rightarrow> string" where
  "rendered x = (case x of Inl err \<Rightarrow> [] | Inr r \<Rightarrow> render_html r)"

text \<open>Substring test, for statements about what a rendered text contains.\<close>

fun is_prefix :: "string \<Rightarrow> string \<Rightarrow> bool" where
  "is_prefix [] ys = True"
| "is_prefix (x # xs) [] = False"
| "is_prefix (x # xs) (y # ys) = (x = y \<and> is_prefix xs ys)"

fun contains :: "string \<Rightarrow> string \<Rightarrow> bool" where
  "contains [] p = (p = [])"
| "contains (c # cs) p = (is_prefix p (c # cs) \<or> contains cs p)"

subsection \<open>Sample inputs\<close>

text \<open>
  An instance of the decoder, for the sample inputs.  Text without LaTeX markup (letters,
  digits, spaces, single hyphens and a little punctuation) decodes to itself, the empty
  string to the empty text.  On every other string this instance raises, as the
  library's decoder does on the lone backslash; what the library makes of other markup is
  not stated here, and nothing below evaluates the instance on it.
\<close>

definition plain_char :: "char \<Rightarrow> bool" where
  "plain_char c =
     (c \<in> set ''abcdefghijklmnopqrstuvwxyzABCDEFGHIJKLMNOPQRSTUVWXYZ0123456789 .,:;()/-'')"

definition markup_free :: "string \<Rightarrow> bool" where
  "markup_free s = (list_all plain_char s \<and> \<not> contains s ''--'')"

definition sample_from_latex :: "string \<Rightarrow> rich option" where
  "sample_from_latex s =
     (if markup_free s then Some (if s = [] then [] else [Str s]) else None)"

definition sample_decoder :: decoder where
  "sample_decoder = \<lparr>from_latex = sample_from_latex, format_name = sample_from_latex\<rparr>"

definition sample_article :: entry where
  "sample_article =
     \<lparr>entry_type = ''article'',
      entry_fields = [''title'' \<mapsto> ''a survey of things'', ''year'' \<mapsto> ''2020'',
        ''journal'' \<mapsto> ''ACM Computing Surveys'', ''volume'' \<mapsto> ''52'',
        ''number'' \<mapsto> ''4'', ''pages'' \<mapsto> ''1-35''],
      persons = [''author'' \<mapsto> [''Ada Lovelace'']]\<rparr>"

definition sample_article_2019 :: entry where
  "sample_article_2019 =
     sample_article\<lparr>entry_fields := (entry_fields sample_article)(''year'' \<mapsto> ''2019'')\<rparr>"

definition in_press_article :: entry where
  "in_press_article =
     sample_article\<lparr>entry_fields := (entry_fields sample_article)(''year'' \<mapsto> ''in press'')\<rparr>"

definition sample_unpublished :: entry where
  "sample_unpublished =
     \<lparr>entry_type = ''unpublished'',
      entry_fields = [''title'' \<mapsto> ''notes on engines'', ''year'' \<mapsto> ''2021''],
      persons = [''author'' \<mapsto> [''Ada Lovelace'', ''Charles Babbage'']]\<rparr>"

definition sample_techreport :: entry where
  "sample_techreport =
     \<lparr>entry_type = ''techreport'',
      entry_fields = [''title'' \<mapsto> ''on computable numbers'', ''year'' \<mapsto> ''1936'',
        ''institution'' \<mapsto> ''Cambridge''],
      persons = [''author'' \<mapsto> [''Alan Turing'']]\<rparr>"





definition techreport_no_institution :: entry where
  "techreport_no_institution =
     sample_techreport\<lparr>entry_fields := (entry_fields sample_techreport)(''institution'' := None)\<rparr>"

definition untitled_article :: entry where
  "untitled_article =
     sample_article\<lparr>entry_fields := (entry_fields sample_article)(''title'' := None)\<rparr>"

definition misc_2020 :: entry where
  "misc_2020 =
     \<lparr>entry_type = ''misc'',
      entry_fields = [''title'' \<mapsto> ''a web page'', ''year'' \<mapsto> ''2020''],
      persons = Map.empty\<rparr>"

definition misc_no_year :: entry where
  "misc_no_year =
     \<lparr>entry_type = ''misc'',
      entry_fields = [''title'' \<mapsto> ''another web page''],
      persons = Map.empty\<rparr>"

definition sample_file :: "string \<Rightarrow> parse_outcome" where
  "sample_file path =
     (if path = ''refs.bib'' then
        Parsed [(''a19'', sample_article_2019), (''t36'', sample_techreport),
                (''a20'', sample_article), (''u21'', sample_unpublished),
                (''m'', misc_no_year)]
      else if path = ''empty.bib'' then Parsed []
      else if path = ''inpress.bib'' then Parsed [(''p'', in_press_article)]
      else if path = ''mixed.bib'' then Parsed [(''m20'', misc_2020), (''m'', misc_no_year)]
      else if path = ''noinst.bib'' then Parsed [(''t'', techreport_no_institution)]
      else if path = ''untitled.bib'' then
        Parsed [(''a20'', sample_article), (''x'', untitled_article)]
      else PybtexError ''syntax error in line 1'')"

definition sample_env :: "py_version \<Rightarrow> env" where
  "sample_env v =
     \<lparr>version = v, parse_file = sample_file,
      write_stream = (\<lambda>key entry. ''@'' @ entry_type entry @ ''{'' @ key @ ''}''),
      decoding = sample_decoder\<rparr>"

definition sample_world :: "string option \<Rightarrow> world" where
  "sample_world src =
     \<lparr>settings = (Map.empty(''PUBLICATIONS_SRC'' := src)), ctx = Map.empty,
      log = [], files_read = []\<rparr>"

text \<open>The keys of the entries whose type satisfies a test, in file order.\<close>

definition keys_of_type :: "(string \<Rightarrow> bool) \<Rightarrow> (string \<times> entry) list \<Rightarrow> string list" where
  "keys_of_type P xs = map fst (filter (\<lambda>ke. P (entry_type (snd ke))) xs)"

subsection \<open>Fields a template requires\<close>





subsection \<open>The text of a citation, written out\<close>




















section \<open>Properties\<close>

subsection \<open>Sorting and the loop\<close>

lemma sample_env_sel:
  "version (sample_env v) = v" "parse_file (sample_env v) = sample_file"
  "decoding (sample_env v) = sample_decoder"
  by (simp_all add: sample_env_def)

lemma sorted_py_mset: "sorted_py v xs = Inr ys \<Longrightarrow> mset ys = mset xs"
  by (auto simp: sorted_py_def split: if_splits)

lemma sorted_py_descending:
  "sorted_py v xs = Inr ys \<Longrightarrow> sorted (rev (map itemgetter_last ys))"
  by (auto simp: sorted_py_def rev_map split: if_splits)

lemma sorted_py_Nil: "sorted_py v [] = Inr []"
  by (simp add: sorted_py_def mixed_years_def)

lemma add_publications_Returned:
  assumes "settings g ''PUBLICATIONS_SRC'' = Some path"
    and "parse_file env path = Parsed entries"
    and "add_publications env g = Returned g'"
  obtains b ps rs us where
    "loop env entries entries empty_buckets = Inr b"
    "sorted_py (version env) (publications b) = Inr ps"
    "sorted_py (version env) (reports b) = Inr rs"
    "sorted_py (version env) (unpublished b) = Inr us"
    "g' = g\<lparr>files_read := files_read g @ [path],
            ctx := (ctx g)(''publications'' \<mapsto> ps, ''reports'' \<mapsto> rs, ''unpublished'' \<mapsto> us)\<rparr>"
  using assms
  by (auto simp: add_publications_def Let_def set_ctx_def split: sum.splits simp del: loop.simps)

lemma entry_result_key:
  "entry_result env entries ke = Inr (entry, r) \<Longrightarrow> map_of entries (fst ke) = Some (snd ke)
     \<Longrightarrow> entry = snd ke \<and> fst r = fst ke"
  by (auto simp: entry_result_def Let_def split: sum.splits option.splits)

lemma loop_keys:
  "loop env entries xs b = Inr b' \<Longrightarrow> \<forall>ke \<in> set xs. map_of entries (fst ke) = Some (snd ke) \<Longrightarrow>
     map fst (publications b') = map fst (publications b) @ keys_of_type (\<lambda>t. t = ''article'') xs \<and>
     map fst (unpublished b') = map fst (unpublished b) @ keys_of_type (\<lambda>t. t = ''unpublished'') xs \<and>
     map fst (reports b') = map fst (reports b) @ keys_of_type (\<lambda>t. t \<noteq> ''article'' \<and> t \<noteq> ''unpublished'') xs"
proof (induction xs arbitrary: b)
  case Nil
  then show ?case by (simp add: keys_of_type_def)
next
  case (Cons ke xs)
  from Cons.prems(1) obtain entry r where
    er: "entry_result env entries ke = Inr (entry, r)"
    and rest: "loop env entries xs (place entry r b) = Inr b'"
    by (auto split: sum.splits)
  from Cons.prems(2) have look: "map_of entries (fst ke) = Some (snd ke)" by simp
  from entry_result_key [OF er look] have e: "entry = snd ke" and k: "fst r = fst ke" by simp_all
  from Cons.prems(2) have "\<forall>ke \<in> set xs. map_of entries (fst ke) = Some (snd ke)" by simp
  from Cons.IH [OF rest this] show ?case
    by (auto simp: keys_of_type_def place_def e k)
qed

subsection \<open>Configuration absence and parse failure\<close>

text \<open>
  C9. When the settings have no \<^verbatim>\<open>PUBLICATIONS_SRC\<close>, \<^verbatim>\<open>add_publications\<close> returns at once:
  no file is handed to the parser, nothing is logged, nothing is raised, and the
  generator's context is what it was.  The whole state after the call is the state before.
\<close>

theorem no_source_no_work:
  "settings g ''PUBLICATIONS_SRC'' = None \<Longrightarrow> add_publications env g = Returned g"
  by (simp add: add_publications_def)

theorem no_source_no_work_witness:
  "settings (sample_world None) ''PUBLICATIONS_SRC'' = None \<and>
   add_publications (sample_env Py3) (sample_world None) = Returned (sample_world None)"
  using no_source_no_work [of "sample_world None" "sample_env Py3"]
  by (simp add: sample_world_def)

text \<open>
  C5. When the parser fails on the whole file with a \<^verbatim>\<open>PybtexError\<close>, the call returns
  normally; the state differs from the one before only by the file having been read and
  by exactly one more log record, of level warning, whose message holds the source path
  and, after it, the parser's error text.  The context is untouched, so no bucket exists.
\<close>

theorem parse_failure_warns_once:
  assumes "settings g ''PUBLICATIONS_SRC'' = Some path"
    and "parse_file env path = PybtexError e"
  shows "add_publications env g =
           Returned (g\<lparr>files_read := files_read g @ [path],
                       log := log g @ [(WARNING, warn_message path e)]\<rparr>) \<and>
         (\<exists>a b. warn_message path e = a @ path @ b @ e)"
proof -
  have "warn_message path e =
          ([CHR 0x60] @ ''pelican_bibtex'' @ [CHR 0x60] @ '' failed to parse file '')
            @ path @ '': '' @ e"
    by (simp add: warn_message_def)
  then have "\<exists>a b. warn_message path e = a @ path @ b @ e" by blast
  with assms show ?thesis by (simp add: add_publications_def)
qed

theorem parse_failure_warns_once_witness:
  "settings (sample_world (Some ''bad.bib'')) ''PUBLICATIONS_SRC'' = Some ''bad.bib'' \<and>
   parse_file (sample_env Py3) ''bad.bib'' = PybtexError ''syntax error in line 1'' \<and>
   add_publications (sample_env Py3) (sample_world (Some ''bad.bib'')) =
     Returned ((sample_world (Some ''bad.bib''))\<lparr>files_read := [''bad.bib''],
        log := [(WARNING, warn_message ''bad.bib'' ''syntax error in line 1'')]\<rparr>)"
proof -
  have s: "settings (sample_world (Some ''bad.bib'')) ''PUBLICATIONS_SRC'' = Some ''bad.bib''"
    by (simp add: sample_world_def)
  have p: "parse_file (sample_env Py3) ''bad.bib'' = PybtexError ''syntax error in line 1''"
    by (simp add: sample_env_sel sample_file_def)
  from parse_failure_warns_once [OF s p] s p show ?thesis
    by (simp add: sample_world_def)
qed

lemma keys_of_type_partition:
  "mset (keys_of_type (\<lambda>t. t = ''article'') xs) +
   mset (keys_of_type (\<lambda>t. t \<noteq> ''article'' \<and> t \<noteq> ''unpublished'') xs) +
   mset (keys_of_type (\<lambda>t. t = ''unpublished'') xs) = mset (map fst xs)"
  by (induction xs) (auto simp: keys_of_type_def)

lemma sorted_py_keys: "sorted_py v xs = Inr ys \<Longrightarrow> mset (map fst ys) = mset (map fst xs)"
  using sorted_py_mset [of v xs ys] by (metis mset_map)

lemma add_publications_loop_raises:
  assumes "settings g ''PUBLICATIONS_SRC'' = Some path"
    and "parse_file env path = Parsed entries"
    and "loop env entries entries empty_buckets = Inl x"
  shows "add_publications env g = Raised x (g\<lparr>files_read := files_read g @ [path]\<rparr>)"
  using assms by (simp add: add_publications_def del: loop.simps)

lemma sample_world_settings: "settings (sample_world src) ''PUBLICATIONS_SRC'' = src"
  by (simp add: sample_world_def)

subsection \<open>The year of the sort key\<close>

text \<open>
  C1. A year that is present but is no integer should count as absent.  The code does
  not do that: \<^verbatim>\<open>int\<close> raises \<^verbatim>\<open>ValueError\<close> on such a string, the handler catches
  \<^verbatim>\<open>TypeError\<close> only, and the exception leaves \<^verbatim>\<open>add_publications\<close>.  At a file whose one
  article has the year \<^verbatim>\<open>in press\<close> the run raises, with nothing put into the context.
\<close>

theorem unparseable_year_raises:
  "entry_fields in_press_article ''year'' = Some ''in press'' \<and>
   year_of in_press_article = Inl ValueError \<and>
   add_publications (sample_env Py3) (sample_world (Some ''inpress.bib'')) =
     Raised ValueError ((sample_world (Some ''inpress.bib''))\<lparr>files_read := [''inpress.bib'']\<rparr>)"
proof -
  have y: "entry_fields in_press_article ''year'' = Some ''in press''"
    by (simp add: in_press_article_def)
  have v: "year_of in_press_article = Inl ValueError"
    by code_simp
  have p: "parse_file (sample_env Py3) ''inpress.bib'' = Parsed [(''p'', in_press_article)]"
    by (simp add: sample_env_sel sample_file_def)
  have l: "loop (sample_env Py3) [(''p'', in_press_article)] [(''p'', in_press_article)]
             empty_buckets = Inl ValueError"
    by code_simp
  from add_publications_loop_raises [OF sample_world_settings p l] y v show ?thesis
    by (simp add: sample_world_def)
qed

subsection \<open>Order within a bucket\<close>

text \<open>Whenever \<^verbatim>\<open>add_publications\<close> returns after a successful parse, each bucket is in
  descending order of its sort keys, a key without a year below every key with one.\<close>

lemma buckets_descending:
  assumes "settings g ''PUBLICATIONS_SRC'' = Some path"
    and "parse_file env path = Parsed entries"
    and "add_publications env g = Returned g'"
  shows "\<exists>ps rs us.
           ctx g' = (ctx g)(''publications'' \<mapsto> ps, ''reports'' \<mapsto> rs,
                            ''unpublished'' \<mapsto> us) \<and>
           sorted (rev (map itemgetter_last ps)) \<and>
           sorted (rev (map itemgetter_last rs)) \<and>
           sorted (rev (map itemgetter_last us))"
proof -
  from add_publications_Returned [OF assms] obtain b ps rs us where
    l: "loop env entries entries empty_buckets = Inr b"
    and p: "sorted_py (version env) (publications b) = Inr ps"
    and r: "sorted_py (version env) (reports b) = Inr rs"
    and u: "sorted_py (version env) (unpublished b) = Inr us"
    and g': "g' = g\<lparr>files_read := files_read g @ [path],
            ctx := (ctx g)(''publications'' \<mapsto> ps, ''reports'' \<mapsto> rs, ''unpublished'' \<mapsto> us)\<rparr>"
    by blast
  have c: "ctx g' = (ctx g)(''publications'' \<mapsto> ps, ''reports'' \<mapsto> rs,
                            ''unpublished'' \<mapsto> us)"
    by (simp add: g')
  show ?thesis
  proof (intro exI conjI)
    show "ctx g' = (ctx g)(''publications'' \<mapsto> ps, ''reports'' \<mapsto> rs,
                            ''unpublished'' \<mapsto> us)"
      by (rule c)
    show "sorted (rev (map itemgetter_last ps))" by (rule sorted_py_descending [OF p])
    show "sorted (rev (map itemgetter_last rs))" by (rule sorted_py_descending [OF r])
    show "sorted (rev (map itemgetter_last us))" by (rule sorted_py_descending [OF u])
  qed
qed

text \<open>
  C2. Each bucket should come out sorted by (year, venue), descending, an absent year
  older than any present one.  On Python 3 the code cannot order an absent year against a
  present one: the comparison of \<^verbatim>\<open>None\<close> with an integer raises \<^verbatim>\<open>TypeError\<close> inside
  \<^verbatim>\<open>sorted\<close>.  At a file with two \<^verbatim>\<open>misc\<close> entries, one with the year 2020 and one with
  none, the run raises while sorting the reports, after the publications key has been set.
\<close>

theorem absent_year_breaks_sort:
  "add_publications (sample_env Py3) (sample_world (Some ''mixed.bib'')) =
     Raised TypeError
       ((sample_world (Some ''mixed.bib''))\<lparr>files_read := [''mixed.bib''],
          ctx := [''publications'' \<mapsto> []]\<rparr>)"
proof -
  let ?es = "[(''m20'', misc_2020), (''m'', misc_no_year)]"
  have p: "sample_file ''mixed.bib'' = Parsed ?es"
    by (simp add: sample_file_def)
  have "case loop (sample_env Py3) ?es ?es empty_buckets of
          Inl x \<Rightarrow> False
        | Inr b \<Rightarrow> publications b = [] \<and> unpublished b = [] \<and> mixed_years (reports b)"
    by code_simp
  then obtain b where l: "loop (sample_env Py3) ?es ?es empty_buckets = Inr b"
    and b: "publications b = []" "mixed_years (reports b)"
    by (auto split: sum.splits)
  from b have s: "sorted_py Py3 (publications b) = Inr []"
    "sorted_py Py3 (reports b) = Inl TypeError"
    by (simp_all add: sorted_py_def mixed_years_def)
  show ?thesis
    by (simp add: add_publications_def sample_world_settings p l s sample_env_sel set_ctx_def
          sample_world_def del: loop.simps)
qed

subsection \<open>Buckets\<close>

text \<open>
  C4, as stated, fails: a successfully parsed file can leave its records in no bucket at
  all.  The file here holds a complete article and an article without a title; formatting
  the second raises \<^verbatim>\<open>FieldIsMissing\<close>, the run ends there, and the context stays empty.
\<close>

theorem record_in_no_bucket_counterexample:
  "parse_file (sample_env Py3) ''untitled.bib'' =
     Parsed [(''a20'', sample_article), (''x'', untitled_article)] \<and>
   add_publications (sample_env Py3) (sample_world (Some ''untitled.bib'')) =
     Raised (FieldIsMissing ''title'')
       ((sample_world (Some ''untitled.bib''))\<lparr>files_read := [''untitled.bib'']\<rparr>) \<and>
   ctx ((sample_world (Some ''untitled.bib''))\<lparr>files_read := [''untitled.bib'']\<rparr>) = Map.empty"
proof -
  have p: "parse_file (sample_env Py3) ''untitled.bib'' =
     Parsed [(''a20'', sample_article), (''x'', untitled_article)]"
    by (simp add: sample_env_sel sample_file_def)
  have l: "loop (sample_env Py3) [(''a20'', sample_article), (''x'', untitled_article)]
        [(''a20'', sample_article), (''x'', untitled_article)] empty_buckets
        = Inl (FieldIsMissing ''title'')"
    by code_simp
  from add_publications_loop_raises [OF sample_world_settings p l] p show ?thesis
    by (simp add: sample_world_def)
qed

text \<open>
  C4, amended.  Whenever \<^verbatim>\<open>add_publications\<close> returns after a successful parse, the
  three buckets are in the context and split the records by type alone: the keys of the
  publications are those of the entries of type \<^verbatim>\<open>article\<close>, the keys of the unpublished
  those of type \<^verbatim>\<open>unpublished\<close>, the keys of the reports those of every other type, and
  over the three buckets every key of the file occurs exactly as often as in the file
  (once: the keys of a parsed file are distinct).
\<close>

theorem buckets_partition_entries:
  assumes src: "settings g ''PUBLICATIONS_SRC'' = Some path"
    and parsed: "parse_file env path = Parsed entries"
    and dist: "distinct (map fst entries)"
    and ret: "add_publications env g = Returned g'"
  shows "\<exists>ps rs us.
           ctx g' ''publications'' = Some ps \<and> ctx g' ''reports'' = Some rs \<and>
           ctx g' ''unpublished'' = Some us \<and>
           mset (map fst ps) = mset (keys_of_type (\<lambda>t. t = ''article'') entries) \<and>
           mset (map fst us) = mset (keys_of_type (\<lambda>t. t = ''unpublished'') entries) \<and>
           mset (map fst rs) =
             mset (keys_of_type (\<lambda>t. t \<noteq> ''article'' \<and> t \<noteq> ''unpublished'') entries) \<and>
           mset (map fst (ps @ rs @ us)) = mset (map fst entries)"
proof -
  from add_publications_Returned [OF src parsed ret] obtain b ps rs us where
    l: "loop env entries entries empty_buckets = Inr b"
    and p: "sorted_py (version env) (publications b) = Inr ps"
    and r: "sorted_py (version env) (reports b) = Inr rs"
    and u: "sorted_py (version env) (unpublished b) = Inr us"
    and g': "g' = g\<lparr>files_read := files_read g @ [path],
            ctx := (ctx g)(''publications'' \<mapsto> ps, ''reports'' \<mapsto> rs, ''unpublished'' \<mapsto> us)\<rparr>"
    by blast
  from dist have "\<forall>ke \<in> set entries. map_of entries (fst ke) = Some (snd ke)"
    by auto
  from loop_keys [OF l this] have
    kp: "map fst (publications b) = keys_of_type (\<lambda>t. t = ''article'') entries"
    and ku: "map fst (unpublished b) = keys_of_type (\<lambda>t. t = ''unpublished'') entries"
    and kr: "map fst (reports b) =
              keys_of_type (\<lambda>t. t \<noteq> ''article'' \<and> t \<noteq> ''unpublished'') entries"
    by (simp_all add: empty_buckets_def)
  have mp: "mset (map fst ps) = mset (keys_of_type (\<lambda>t. t = ''article'') entries)"
    using sorted_py_keys [OF p] kp by simp
  have mu: "mset (map fst us) = mset (keys_of_type (\<lambda>t. t = ''unpublished'') entries)"
    using sorted_py_keys [OF u] ku by simp
  have mr: "mset (map fst rs) =
      mset (keys_of_type (\<lambda>t. t \<noteq> ''article'' \<and> t \<noteq> ''unpublished'') entries)"
    using sorted_py_keys [OF r] kr by simp
  have all: "mset (map fst (ps @ rs @ us)) = mset (map fst entries)"
    using mp mu mr keys_of_type_partition [of entries] by (simp add: add.assoc)
  have c: "ctx g' ''publications'' = Some ps \<and> ctx g' ''reports'' = Some rs \<and>
           ctx g' ''unpublished'' = Some us"
    by (simp add: g')
  from c mp mu mr all show ?thesis by blast
qed

theorem buckets_partition_entries_witness:
  "settings (sample_world (Some ''refs.bib'')) ''PUBLICATIONS_SRC'' = Some ''refs.bib'' \<and>
   distinct [''a19'', ''t36'', ''a20'', ''u21'', ''m''] \<and>
   (\<exists>g'. add_publications (sample_env Py2) (sample_world (Some ''refs.bib'')) = Returned g' \<and>
      (\<exists>ps rs us.
         ctx g' ''publications'' = Some ps \<and> ctx g' ''reports'' = Some rs \<and>
         ctx g' ''unpublished'' = Some us \<and>
         mset (map fst ps) = {#''a19'', ''a20''#} \<and>
         mset (map fst us) = {#''u21''#} \<and>
         mset (map fst rs) = {#''t36'', ''m''#}))"
proof -
  let ?es = "[(''a19'', sample_article_2019), (''t36'', sample_techreport),
              (''a20'', sample_article), (''u21'', sample_unpublished), (''m'', misc_no_year)]"
  have p: "parse_file (sample_env Py2) ''refs.bib'' = Parsed ?es"
    by (simp add: sample_env_sel sample_file_def)
  have d: "distinct (map fst ?es)" by simp
  have "case add_publications (sample_env Py2) (sample_world (Some ''refs.bib'')) of
          Returned g \<Rightarrow> True | Raised x g \<Rightarrow> False"
    by code_simp
  then obtain g' where
    r: "add_publications (sample_env Py2) (sample_world (Some ''refs.bib'')) = Returned g'"
    by (auto split: result.splits)
  have t: "entry_type sample_article_2019 = ''article''" "entry_type sample_article = ''article''"
    "entry_type sample_techreport = ''techreport''"
    "entry_type sample_unpublished = ''unpublished''" "entry_type misc_no_year = ''misc''"
    by (simp_all add: sample_article_2019_def sample_article_def sample_techreport_def
          sample_unpublished_def misc_no_year_def)
  from buckets_partition_entries [OF sample_world_settings p d r] obtain ps rs us where
    "ctx g' ''publications'' = Some ps" "ctx g' ''reports'' = Some rs"
    "ctx g' ''unpublished'' = Some us"
    "mset (map fst ps) = mset (keys_of_type (\<lambda>t. t = ''article'') ?es)"
    "mset (map fst us) = mset (keys_of_type (\<lambda>t. t = ''unpublished'') ?es)"
    "mset (map fst rs) =
       mset (keys_of_type (\<lambda>t. t \<noteq> ''article'' \<and> t \<noteq> ''unpublished'') ?es)"
    by blast
  then have "\<exists>ps rs us.
         ctx g' ''publications'' = Some ps \<and> ctx g' ''reports'' = Some rs \<and>
         ctx g' ''unpublished'' = Some us \<and>
         mset (map fst ps) = {#''a19'', ''a20''#} \<and>
         mset (map fst us) = {#''u21''#} \<and>
         mset (map fst rs) = {#''t36'', ''m''#}"
    by (simp add: keys_of_type_def t)
  with r show ?thesis
    by (simp add: sample_world_settings)
qed

subsection \<open>The context keys after a run\<close>

text \<open>
  C10, as stated, fails in its first part: after a successful parse the three keys need
  not be set.  The file here holds one technical report without an institution;
  formatting it raises \<^verbatim>\<open>FieldIsMissing\<close>, which leaves \<^verbatim>\<open>add_publications\<close>, and none of
  the three keys is in the context.
\<close>

theorem keys_unset_after_parse_counterexample:
  "parse_file (sample_env Py3) ''noinst.bib'' = Parsed [(''t'', techreport_no_institution)] \<and>
   add_publications (sample_env Py3) (sample_world (Some ''noinst.bib'')) =
     Raised (FieldIsMissing ''institution'')
       ((sample_world (Some ''noinst.bib''))\<lparr>files_read := [''noinst.bib'']\<rparr>) \<and>
   ctx ((sample_world (Some ''noinst.bib''))\<lparr>files_read := [''noinst.bib'']\<rparr>)
     ''publications'' = None \<and>
   ctx ((sample_world (Some ''noinst.bib''))\<lparr>files_read := [''noinst.bib'']\<rparr>)
     ''reports'' = None \<and>
   ctx ((sample_world (Some ''noinst.bib''))\<lparr>files_read := [''noinst.bib'']\<rparr>)
     ''unpublished'' = None"
proof -
  have p: "parse_file (sample_env Py3) ''noinst.bib'' =
             Parsed [(''t'', techreport_no_institution)]"
    by (simp add: sample_env_sel sample_file_def)
  have l: "loop (sample_env Py3) [(''t'', techreport_no_institution)]
             [(''t'', techreport_no_institution)] empty_buckets
           = Inl (FieldIsMissing ''institution'')"
    by code_simp
  from add_publications_loop_raises [OF sample_world_settings p l] p show ?thesis
    by (simp add: sample_world_def)
qed

text \<open>
  C10, amended.  The context tells the outcomes of a returning run apart.  Without a
  configured source, and after a whole-file parse failure, the call returns with the
  context unchanged.  After a successful parse, whenever the call returns, the context is
  the old one with exactly the three keys \<^verbatim>\<open>publications\<close>, \<^verbatim>\<open>reports\<close> and
  \<^verbatim>\<open>unpublished\<close> set; and for a file with no entries the call does return, each of
  the three set to the empty list.
\<close>

theorem context_keys_by_outcome:
  "(settings g ''PUBLICATIONS_SRC'' = None \<longrightarrow>
      (\<exists>g'. add_publications env g = Returned g' \<and> ctx g' = ctx g)) \<and>
   (settings g ''PUBLICATIONS_SRC'' = Some path \<and> parse_file env path = PybtexError e \<longrightarrow>
      (\<exists>g'. add_publications env g = Returned g' \<and> ctx g' = ctx g)) \<and>
   (settings g ''PUBLICATIONS_SRC'' = Some path \<and> parse_file env path = Parsed entries \<and>
    add_publications env g = Returned g1 \<longrightarrow>
      (\<exists>ps rs us. ctx g1 =
         (ctx g)(''publications'' \<mapsto> ps, ''reports'' \<mapsto> rs, ''unpublished'' \<mapsto> us))) \<and>
   (settings g ''PUBLICATIONS_SRC'' = Some path \<and> parse_file env path = Parsed [] \<longrightarrow>
      (\<exists>g'. add_publications env g = Returned g' \<and>
         ctx g' = (ctx g)(''publications'' \<mapsto> [], ''reports'' \<mapsto> [], ''unpublished'' \<mapsto> [])))"
proof (intro conjI impI)
  assume "settings g ''PUBLICATIONS_SRC'' = None"
  then show "\<exists>g'. add_publications env g = Returned g' \<and> ctx g' = ctx g"
    by (simp add: add_publications_def)
next
  assume "settings g ''PUBLICATIONS_SRC'' = Some path \<and> parse_file env path = PybtexError e"
  then show "\<exists>g'. add_publications env g = Returned g' \<and> ctx g' = ctx g"
    by (simp add: add_publications_def)
next
  assume a: "settings g ''PUBLICATIONS_SRC'' = Some path \<and>
    parse_file env path = Parsed entries \<and> add_publications env g = Returned g1"
  then have s: "settings g ''PUBLICATIONS_SRC'' = Some path"
    and p: "parse_file env path = Parsed entries"
    and r: "add_publications env g = Returned g1" by simp_all
  from add_publications_Returned [OF s p r] obtain ps rs us where
    "g1 = g\<lparr>files_read := files_read g @ [path],
            ctx := (ctx g)(''publications'' \<mapsto> ps, ''reports'' \<mapsto> rs, ''unpublished'' \<mapsto> us)\<rparr>"
    by blast
  then have "ctx g1 =
      (ctx g)(''publications'' \<mapsto> ps, ''reports'' \<mapsto> rs, ''unpublished'' \<mapsto> us)"
    by simp
  then show "\<exists>ps rs us. ctx g1 =
         (ctx g)(''publications'' \<mapsto> ps, ''reports'' \<mapsto> rs, ''unpublished'' \<mapsto> us)"
    by blast
next
  assume "settings g ''PUBLICATIONS_SRC'' = Some path \<and> parse_file env path = Parsed []"
  then show "\<exists>g'. add_publications env g = Returned g' \<and>
         ctx g' = (ctx g)(''publications'' \<mapsto> [], ''reports'' \<mapsto> [], ''unpublished'' \<mapsto> [])"
    by (simp add: add_publications_def empty_buckets_def sorted_py_Nil set_ctx_def)
qed

theorem context_keys_by_outcome_witness:
  "ctx (sample_world None) = Map.empty \<and>
   add_publications (sample_env Py3) (sample_world None) = Returned (sample_world None) \<and>
   (\<exists>g'. add_publications (sample_env Py3) (sample_world (Some ''bad.bib'')) = Returned g' \<and>
      ctx g' = Map.empty) \<and>
   (\<exists>g'. add_publications (sample_env Py3) (sample_world (Some ''empty.bib'')) = Returned g' \<and>
      ctx g' = [''publications'' \<mapsto> [], ''reports'' \<mapsto> [], ''unpublished'' \<mapsto> []]) \<and>
   (\<exists>g' ps rs us.
      add_publications (sample_env Py2) (sample_world (Some ''refs.bib'')) = Returned g' \<and>
      ctx g' = [''publications'' \<mapsto> ps, ''reports'' \<mapsto> rs, ''unpublished'' \<mapsto> us])"
proof -
  let ?es = "[(''a19'', sample_article_2019), (''t36'', sample_techreport),
              (''a20'', sample_article), (''u21'', sample_unpublished), (''m'', misc_no_year)]"
  have c: "\<And>src. ctx (sample_world src) = Map.empty"
    by (simp add: sample_world_def)
  have bad: "parse_file (sample_env Py3) ''bad.bib'' = PybtexError ''syntax error in line 1''"
    by (simp add: sample_env_sel sample_file_def)
  have emp: "parse_file (sample_env Py3) ''empty.bib'' = Parsed []"
    by (simp add: sample_env_sel sample_file_def)
  have refs: "parse_file (sample_env Py2) ''refs.bib'' = Parsed ?es"
    by (simp add: sample_env_sel sample_file_def)
  have "case add_publications (sample_env Py2) (sample_world (Some ''refs.bib'')) of
          Returned g \<Rightarrow> True | Raised x g \<Rightarrow> False"
    by code_simp
  then obtain g' where
    r: "add_publications (sample_env Py2) (sample_world (Some ''refs.bib'')) = Returned g'"
    by (auto split: result.splits)
  have 1: "add_publications (sample_env Py3) (sample_world None) = Returned (sample_world None)"
    using context_keys_by_outcome [where g = "sample_world None" and env = "sample_env Py3"]
    by (simp add: add_publications_def sample_world_settings)
  have 2: "\<exists>g'. add_publications (sample_env Py3) (sample_world (Some ''bad.bib'')) = Returned g'
             \<and> ctx g' = Map.empty"
    using context_keys_by_outcome [where g = "sample_world (Some ''bad.bib'')"
        and path = "''bad.bib''" and env = "sample_env Py3"
        and e = "''syntax error in line 1''"] bad
    by (simp add: sample_world_settings c)
  have 3: "\<exists>g'. add_publications (sample_env Py3) (sample_world (Some ''empty.bib'')) = Returned g'
      \<and> ctx g' = [''publications'' \<mapsto> [], ''reports'' \<mapsto> [], ''unpublished'' \<mapsto> []]"
    using context_keys_by_outcome [where g = "sample_world (Some ''empty.bib'')"
        and path = "''empty.bib''" and env = "sample_env Py3"] emp
    by (simp add: sample_world_settings c)
  have 4: "\<exists>ps rs us. ctx g' =
       [''publications'' \<mapsto> ps, ''reports'' \<mapsto> rs, ''unpublished'' \<mapsto> us]"
    using context_keys_by_outcome [where g = "sample_world (Some ''refs.bib'')"
        and path = "''refs.bib''" and env = "sample_env Py2" and entries = ?es
        and ?g1.0 = g'] refs r
    by (simp add: sample_world_settings c)
  from c 1 2 3 4 r show ?thesis by blast
qed

subsection \<open>The formatters against the written-out text\<close>































subsection \<open>Formatting one record\<close>




subsection \<open>The type word of an unpublished entry\<close>




subsection \<open>The doi field\<close>

text \<open>Formatting depends on a field only through the \<^verbatim>\<open>field\<close> nodes that name it.\<close>

lemma format_ignores_unmentioned:
  "\<not> mentions n t \<Longrightarrow>
     format_data d t (e\<lparr>entry_fields := (entry_fields e)(n := v)\<rparr>) = format_data d t e"
  "\<not> mentions_list n ts \<Longrightarrow>
     format_list d ts (e\<lparr>entry_fields := (entry_fields e)(n := v)\<rparr>) = format_list d ts e"
  "\<not> mentions_list n ts \<Longrightarrow>
     first_nonempty d ts (e\<lparr>entry_fields := (entry_fields e)(n := v)\<rparr>) = first_nonempty d ts e"
  by (induction d t e and d ts e and d ts e rule: format_data_format_list_first_nonempty.induct)
    (auto split: sum.splits)

text \<open>No template of the style has a \<^verbatim>\<open>field\<close> node for the doi: the module's three
  have none, and the inherited ones would reach it only through \<^verbatim>\<open>format_doi\<close>, which
  the module overrides with the empty template.\<close>

lemma web_refs_without_doi: "\<not> mentions ''doi'' format_web_refs"
  by code_simp

lemma templates_without_doi:
  "\<not> mentions ''doi'' article_template"
  "\<not> mentions ''doi'' unpublished_template"
  "\<not> mentions ''doi'' techreport_template"
  by code_simp+

lemma parts_without_doi:
  "\<not> mentions ''doi'' (format_editor e s)"
  "\<not> mentions ''doi'' (format_author_or_editor e)"
  "\<not> mentions ''doi'' (format_volume_and_series s)"
  "\<not> mentions ''doi'' format_chapter_and_pages"
  "\<not> mentions ''doi'' format_edition"
  "\<not> mentions ''doi'' (format_btitle ''title'' s)"
  "\<not> mentions ''doi'' (format_btitle ''booktitle'' s)"
  "\<not> mentions ''doi'' (format_title ''title'' s)"
  "\<not> mentions ''doi'' (format_names r s)"
  "\<not> mentions ''doi'' (format_address_organization_publisher_date s)"
  "\<not> mentions ''doi'' format_isbn"
  "\<not> mentions ''doi'' date"
  "\<not> mentions ''doi'' pages"
  "\<not> mentions ''doi'' (optional_field ''note'')"
  by (simp_all add: format_editor_def format_author_or_editor_def format_volume_and_series_def
        format_chapter_and_pages_def format_edition_def format_btitle_def format_title_def
        format_names_def format_address_organization_publisher_date_def format_isbn_def
        date_def pages_def optional_field_def words_def Let_def split: option.splits)

lemma inherited_without_doi: "inherited e = Some t \<Longrightarrow> \<not> mentions ''doi'' t"
  by (auto simp: inherited_def Let_def format_book_def format_booklet_def format_inbook_def
        format_incollection_def format_inproceedings_def format_manual_def
        format_mastersthesis_def format_misc_def format_phdthesis_def format_proceedings_def
        toplevel_def words_def optional_field_def parts_without_doi web_refs_without_doi
        split: if_splits)

lemma inherited_ignores_fields:
  "inherited (e\<lparr>entry_fields := f\<rparr>) = inherited e"
  by (simp add: inherited_def Let_def format_book_def format_booklet_def format_inbook_def
        format_incollection_def format_inproceedings_def format_manual_def
        format_mastersthesis_def format_misc_def format_phdthesis_def format_proceedings_def
        format_editor_def format_author_or_editor_def)

text \<open>
  C6. The rendered citation does not depend on the doi field: for every record, of
  every type, and every decoder, setting, changing or removing the field \<^verbatim>\<open>doi\<close> leaves
  the result of formatting (the text, or the error raised) the same, hence the rendered
  HTML byte-identical.
\<close>

theorem doi_never_rendered:
  "format_entry d (e\<lparr>entry_fields := (entry_fields e)(''doi'' := v)\<rparr>) = format_entry d e \<and>
   rendered (format_entry d (e\<lparr>entry_fields := (entry_fields e)(''doi'' := v)\<rparr>)) =
     rendered (format_entry d e)"
proof -
  have "format_entry d (e\<lparr>entry_fields := (entry_fields e)(''doi'' := v)\<rparr>) = format_entry d e"
    by (auto simp: format_entry_def format_article_def format_unpublished_def
          format_techreport_def format_ignores_unmentioned(1) templates_without_doi
          inherited_ignores_fields inherited_without_doi split: option.splits)
  then show ?thesis by simp
qed

theorem doi_never_rendered_witness:
  "rendered (format_entry sample_decoder
       (misc_2020\<lparr>entry_fields := (entry_fields misc_2020)(''doi'' \<mapsto> ''10.1000/182'')\<rparr>)) =
     rendered (format_entry sample_decoder misc_2020) \<and>
   rendered (format_entry sample_decoder
       (sample_article\<lparr>entry_fields := (entry_fields sample_article)(''doi'' \<mapsto> ''10.1000/182'')\<rparr>)) =
     rendered (format_entry sample_decoder sample_article)"
  using doi_never_rendered [of sample_decoder misc_2020 "Some ''10.1000/182''"]
    doi_never_rendered [of sample_decoder sample_article "Some ''10.1000/182''"]
  by simp

subsection \<open>Volume and pages of an article\<close>




end
